theory Spec2Isabelle
  imports Main
begin

section \<open>JavaScript values\<close>

text \<open>
  Parsed JSON bodies, request payloads and the user profile are JavaScript values.
  \<open>Undefined\<close> and \<open>Null\<close> are kept apart because the code tells them apart
  (\<open>deleteIssue\<close> returns \<open>undefined\<close>, React's user state starts as \<open>null\<close>).
  Numbers are modelled as integers: the code only ever tests them for truthiness.
  An object is the list of its properties; a property is read at its first binding.
\<close>

datatype jsval =
    Undefined
  | Null
  | JBool bool
  | JNum int
  | JStr string
  | JArr "jsval list"
  | JObj "(string \<times> jsval) list"

text \<open>JavaScript truthiness, as used by \<open>if (x)\<close> and \<open>x || y\<close>.\<close>

fun truthy :: "jsval \<Rightarrow> bool" where
  "truthy Undefined = False"
| "truthy Null = False"
| "truthy (JBool b) = b"
| "truthy (JNum n) = (n \<noteq> 0)"
| "truthy (JStr s) = (s \<noteq> [])"
| "truthy (JArr xs) = True"
| "truthy (JObj kvs) = True"

text \<open>\<open>a || b\<close>\<close>

definition js_or :: "jsval \<Rightarrow> jsval \<Rightarrow> jsval" where
  "js_or a b = (if truthy a then a else b)"

text \<open>
  \<open>v?.detail\<close>: \<open>undefined\<close> when \<open>v\<close> is \<open>null\<close> or \<open>undefined\<close>, the property
  when \<open>v\<close> is an object that has it, and \<open>undefined\<close> on every other value (no
  primitive and no array has a property of that name).
\<close>

fun prop_detail :: "jsval \<Rightarrow> jsval" where
  "prop_detail (JObj kvs) = (case map_of kvs ''detail'' of Some v \<Rightarrow> v | None \<Rightarrow> Undefined)"
| "prop_detail v = Undefined"


section \<open>The browser: localStorage and window.location\<close>

datatype verb = GET | POST | PATCH | DELETE

text \<open>
  An axios request config. \<open>body\<close> is the field axios calls \<open>data\<close> (renamed, since
  the response has a \<open>data\<close> field too).
\<close>

record config =
  verb :: verb
  baseURL :: string
  url :: string
  headers :: "string \<rightharpoonup> string"
  body :: jsval
  params :: jsval

record response =
  status :: nat
  data :: jsval

text \<open>
  An axios error: \<open>error.response\<close> is absent when no response reached the client.
\<close>

record axios_error =
  config :: config
  response :: "response option"

text \<open>
  The effects the code has on its environment, in the order they happen: a request
  handed to the transport, \<open>localStorage.removeItem(k)\<close>, and an assignment to
  \<open>window.location.href\<close>.
\<close>

datatype effect =
    Transmit config
  | RemoveItem string
  | AssignHref string

record world =
  storage :: "string \<rightharpoonup> string"
  pathname :: string
  trace :: "effect list"

text \<open>\<open>localStorage.getItem(k)\<close>: \<open>None\<close> is \<open>null\<close>.\<close>

definition getItem :: "world \<Rightarrow> string \<Rightarrow> string option" where
  "getItem w k = storage w k"

definition removeItem :: "string \<Rightarrow> world \<Rightarrow> world" where
  "removeItem k w = w\<lparr>storage := (storage w)(k := None), trace := trace w @ [RemoveItem k]\<rparr>"

text \<open>
  \<open>window.location.href = p\<close> asks the browser to navigate; the navigation itself
  happens after the running handler, so the model records the request and leaves
  \<open>pathname\<close> as it is.
\<close>

definition assign_href :: "string \<Rightarrow> world \<Rightarrow> world" where
  "assign_href p w = w\<lparr>trace := trace w @ [AssignHref p]\<rparr>"

definition transmit :: "config \<Rightarrow> world \<Rightarrow> world" where
  "transmit c w = w\<lparr>trace := trace w @ [Transmit c]\<rparr>"


section \<open>api/axios.js: the client and its two interceptors\<close>

text \<open>\<open>axios.create({baseURL: ..., headers: {'Content-Type': 'application/json'}})\<close>\<close>

definition api_defaults :: config where
  "api_defaults =
     \<lparr>verb = GET, baseURL = ''http://localhost:8000/api'', url = [],
      headers = [''Content-Type'' \<mapsto> ''application/json''],
      body = Undefined, params = Undefined\<rparr>"

text \<open>
  The request interceptor. \<open>if (token)\<close> is a truthiness test on what \<open>getItem\<close>
  returned: \<open>null\<close> and the empty string both fail it.
\<close>

definition request_interceptor :: "world \<Rightarrow> config \<Rightarrow> config" where
  "request_interceptor w c =
     (case getItem w ''token'' of
        None \<Rightarrow> c
      | Some token \<Rightarrow>
          if token \<noteq> []
          then c\<lparr>headers := (headers c)(''Authorization'' \<mapsto> ''Bearer '' @ token)\<rparr>
          else c)"

text \<open>The response interceptor's first handler: \<open>(response) => response\<close>.\<close>

definition response_fulfilled :: "response \<Rightarrow> response" where
  "response_fulfilled r = r"

text \<open>
  The response interceptor's second handler. \<open>error.response?.status === 401\<close> is
  false when there is no response. The handler always ends in \<open>Promise.reject(error)\<close>.
\<close>

definition response_rejected :: "axios_error \<Rightarrow> world \<Rightarrow> (axios_error + response) \<times> world" where
  "response_rejected e w =
     (if map_option status (response e) = Some 401
      then
        (let w1 = removeItem ''token'' w;
             w2 = removeItem ''user'' w1;
             w3 = (if pathname w2 \<noteq> ''/login'' then assign_href ''/login'' w2 else w2)
         in (Inl e, w3))
      else (Inl e, w))"

text \<open>
  What the transport did with a request: a response with a status and a parsed body,
  or no response at all. The network is a parameter of the model.
\<close>

datatype outcome = Responded nat jsval | NoResponse

type_synonym network = "config \<Rightarrow> outcome"

text \<open>
  axios settles a response by its default \<open>validateStatus\<close>: statuses from 200 to 299
  fulfil the promise, every other status rejects it with an error carrying the
  response; a request without a response rejects with an error that has none.
\<close>

definition settle :: "config \<Rightarrow> outcome \<Rightarrow> axios_error + response" where
  "settle c out =
     (case out of
        NoResponse \<Rightarrow> Inl \<lparr>config = c, response = None\<rparr>
      | Responded s b \<Rightarrow>
          if 200 \<le> s \<and> s < 300 then Inr \<lparr>status = s, data = b\<rparr>
          else Inl \<lparr>config = c, response = Some \<lparr>status = s, data = b\<rparr>\<rparr>)"

text \<open>
  One request through the client: request interceptor, transport, then the response
  interceptor's handler for the way the exchange settled.
\<close>

definition api_request :: "network \<Rightarrow> config \<Rightarrow> world \<Rightarrow> (axios_error + response) \<times> world" where
  "api_request net c w =
     (let sent = request_interceptor w c;
          w1 = transmit sent w
      in case settle sent (net sent) of
           Inr r \<Rightarrow> (Inr (response_fulfilled r), w1)
         | Inl e \<Rightarrow> response_rejected e w1)"

text \<open>\<open>api.get(url, {params})\<close>, \<open>api.post(url, data)\<close>, \<open>api.patch(url, data)\<close>, \<open>api.delete(url)\<close>\<close>

definition api_get :: "network \<Rightarrow> string \<Rightarrow> jsval \<Rightarrow> world \<Rightarrow> (axios_error + response) \<times> world" where
  "api_get net u p = api_request net (api_defaults\<lparr>verb := GET, url := u, params := p\<rparr>)"

definition api_post :: "network \<Rightarrow> string \<Rightarrow> jsval \<Rightarrow> world \<Rightarrow> (axios_error + response) \<times> world" where
  "api_post net u d = api_request net (api_defaults\<lparr>verb := POST, url := u, body := d\<rparr>)"

definition api_patch :: "network \<Rightarrow> string \<Rightarrow> jsval \<Rightarrow> world \<Rightarrow> (axios_error + response) \<times> world" where
  "api_patch net u d = api_request net (api_defaults\<lparr>verb := PATCH, url := u, body := d\<rparr>)"

definition api_delete :: "network \<Rightarrow> string \<Rightarrow> world \<Rightarrow> (axios_error + response) \<times> world" where
  "api_delete net u = api_request net (api_defaults\<lparr>verb := DELETE, url := u\<rparr>)"


section \<open>api/auth.js, api/projects.js, api/issues.js, api/comments.js: the wrappers\<close>

text \<open>
  Each wrapper awaits one call of the client. A rejected call throws out of the wrapper
  (\<open>Inl\<close>); a fulfilled one gives the response \<open>res\<close>, of which the wrapper
  returns the \<open>data\<close>. Identifiers are the text that the path template interpolates.
\<close>

definition authAPI_signup :: "network \<Rightarrow> jsval \<Rightarrow> world \<Rightarrow> (axios_error + jsval) \<times> world" where
  "authAPI_signup net d w =
     (case api_post net ''/auth/signup'' d w of
        (Inl e, w') \<Rightarrow> (Inl e, w')
      | (Inr res, w') \<Rightarrow> (Inr (data res), w'))"

definition authAPI_login :: "network \<Rightarrow> jsval \<Rightarrow> world \<Rightarrow> (axios_error + jsval) \<times> world" where
  "authAPI_login net credentials w =
     (case api_post net ''/auth/login'' credentials w of
        (Inl e, w') \<Rightarrow> (Inl e, w')
      | (Inr res, w') \<Rightarrow> (Inr (data res), w'))"

definition authAPI_getCurrentUser :: "network \<Rightarrow> world \<Rightarrow> (axios_error + jsval) \<times> world" where
  "authAPI_getCurrentUser net w =
     (case api_get net ''/auth/me'' Undefined w of
        (Inl e, w') \<Rightarrow> (Inl e, w')
      | (Inr res, w') \<Rightarrow> (Inr (data res), w'))"

definition projectsAPI_getProjects :: "network \<Rightarrow> world \<Rightarrow> (axios_error + jsval) \<times> world" where
  "projectsAPI_getProjects net w =
     (case api_get net ''/projects'' Undefined w of
        (Inl e, w') \<Rightarrow> (Inl e, w')
      | (Inr res, w') \<Rightarrow> (Inr (data res), w'))"

definition projectsAPI_createProject :: "network \<Rightarrow> jsval \<Rightarrow> world \<Rightarrow> (axios_error + jsval) \<times> world" where
  "projectsAPI_createProject net d w =
     (case api_post net ''/projects'' d w of
        (Inl e, w') \<Rightarrow> (Inl e, w')
      | (Inr res, w') \<Rightarrow> (Inr (data res), w'))"

definition projectsAPI_getProject :: "network \<Rightarrow> string \<Rightarrow> world \<Rightarrow> (axios_error + jsval) \<times> world" where
  "projectsAPI_getProject net projectId w =
     (case api_get net (''/projects/'' @ projectId) Undefined w of
        (Inl e, w') \<Rightarrow> (Inl e, w')
      | (Inr res, w') \<Rightarrow> (Inr (data res), w'))"

definition projectsAPI_addMember :: "network \<Rightarrow> string \<Rightarrow> jsval \<Rightarrow> world \<Rightarrow> (axios_error + jsval) \<times> world" where
  "projectsAPI_addMember net projectId d w =
     (case api_post net (''/projects/'' @ projectId @ ''/members'') d w of
        (Inl e, w') \<Rightarrow> (Inl e, w')
      | (Inr res, w') \<Rightarrow> (Inr (data res), w'))"

text \<open>\<open>getIssues\<close> has the default parameter \<open>params = {}\<close>, used when the argument is \<open>undefined\<close>.\<close>

definition issuesAPI_getIssues :: "network \<Rightarrow> string \<Rightarrow> jsval \<Rightarrow> world \<Rightarrow> (axios_error + jsval) \<times> world" where
  "issuesAPI_getIssues net projectId p w =
     (let query = (if p = Undefined then JObj [] else p)
      in case api_get net (''/projects/'' @ projectId @ ''/issues'') query w of
           (Inl e, w') \<Rightarrow> (Inl e, w')
         | (Inr res, w') \<Rightarrow> (Inr (data res), w'))"

definition issuesAPI_createIssue :: "network \<Rightarrow> string \<Rightarrow> jsval \<Rightarrow> world \<Rightarrow> (axios_error + jsval) \<times> world" where
  "issuesAPI_createIssue net projectId d w =
     (case api_post net (''/projects/'' @ projectId @ ''/issues'') d w of
        (Inl e, w') \<Rightarrow> (Inl e, w')
      | (Inr res, w') \<Rightarrow> (Inr (data res), w'))"

definition issuesAPI_getIssue :: "network \<Rightarrow> string \<Rightarrow> world \<Rightarrow> (axios_error + jsval) \<times> world" where
  "issuesAPI_getIssue net issueId w =
     (case api_get net (''/issues/'' @ issueId) Undefined w of
        (Inl e, w') \<Rightarrow> (Inl e, w')
      | (Inr res, w') \<Rightarrow> (Inr (data res), w'))"

definition issuesAPI_updateIssue :: "network \<Rightarrow> string \<Rightarrow> jsval \<Rightarrow> world \<Rightarrow> (axios_error + jsval) \<times> world" where
  "issuesAPI_updateIssue net issueId d w =
     (case api_patch net (''/issues/'' @ issueId) d w of
        (Inl e, w') \<Rightarrow> (Inl e, w')
      | (Inr res, w') \<Rightarrow> (Inr (data res), w'))"

text \<open>\<open>deleteIssue\<close> awaits the call and has no \<open>return\<close>: it resolves to \<open>undefined\<close>.\<close>

definition issuesAPI_deleteIssue :: "network \<Rightarrow> string \<Rightarrow> world \<Rightarrow> (axios_error + jsval) \<times> world" where
  "issuesAPI_deleteIssue net issueId w =
     (case api_delete net (''/issues/'' @ issueId) w of
        (Inl e, w') \<Rightarrow> (Inl e, w')
      | (Inr res, w') \<Rightarrow> (Inr Undefined, w'))"

definition commentsAPI_getComments :: "network \<Rightarrow> string \<Rightarrow> world \<Rightarrow> (axios_error + jsval) \<times> world" where
  "commentsAPI_getComments net issueId w =
     (case api_get net (''/issues/'' @ issueId @ ''/comments'') Undefined w of
        (Inl e, w') \<Rightarrow> (Inl e, w')
      | (Inr res, w') \<Rightarrow> (Inr (data res), w'))"

definition commentsAPI_createComment :: "network \<Rightarrow> string \<Rightarrow> jsval \<Rightarrow> world \<Rightarrow> (axios_error + jsval) \<times> world" where
  "commentsAPI_createComment net issueId d w =
     (case api_post net (''/issues/'' @ issueId @ ''/comments'') d w of
        (Inl e, w') \<Rightarrow> (Inl e, w')
      | (Inr res, w') \<Rightarrow> (Inr (data res), w'))"

text \<open>
  api/index.js exports the four API objects; \<open>api_call\<close> names a call of any of their
  members with its arguments, and \<open>invoke\<close> makes the call.
\<close>

datatype api_call =
    Signup jsval
  | Login jsval
  | GetCurrentUser
  | GetProjects
  | CreateProject jsval
  | GetProject string
  | AddMember string jsval
  | GetIssues string jsval
  | CreateIssue string jsval
  | GetIssue string
  | UpdateIssue string jsval
  | DeleteIssue string
  | GetComments string
  | CreateComment string jsval

fun invoke :: "api_call \<Rightarrow> network \<Rightarrow> world \<Rightarrow> (axios_error + jsval) \<times> world" where
  "invoke (Signup d) net = authAPI_signup net d"
| "invoke (Login d) net = authAPI_login net d"
| "invoke GetCurrentUser net = authAPI_getCurrentUser net"
| "invoke GetProjects net = projectsAPI_getProjects net"
| "invoke (CreateProject d) net = projectsAPI_createProject net d"
| "invoke (GetProject i) net = projectsAPI_getProject net i"
| "invoke (AddMember i d) net = projectsAPI_addMember net i d"
| "invoke (GetIssues i p) net = issuesAPI_getIssues net i p"
| "invoke (CreateIssue i d) net = issuesAPI_createIssue net i d"
| "invoke (GetIssue i) net = issuesAPI_getIssue net i"
| "invoke (UpdateIssue i d) net = issuesAPI_updateIssue net i d"
| "invoke (DeleteIssue i) net = issuesAPI_deleteIssue net i"
| "invoke (GetComments i) net = commentsAPI_getComments net i"
| "invoke (CreateComment i d) net = commentsAPI_createComment net i d"

text \<open>
  The request a call names, before the interceptor sees it: verb, path, body and query
  over the client's defaults. Lemma \<open>invoke_via_request\<close> below ties this table to the
  wrappers.
\<close>

fun call_request :: "api_call \<Rightarrow> config" where
  "call_request (Signup d) = api_defaults\<lparr>verb := POST, url := ''/auth/signup'', body := d\<rparr>"
| "call_request (Login d) = api_defaults\<lparr>verb := POST, url := ''/auth/login'', body := d\<rparr>"
| "call_request GetCurrentUser = api_defaults\<lparr>verb := GET, url := ''/auth/me''\<rparr>"
| "call_request GetProjects = api_defaults\<lparr>verb := GET, url := ''/projects''\<rparr>"
| "call_request (CreateProject d) = api_defaults\<lparr>verb := POST, url := ''/projects'', body := d\<rparr>"
| "call_request (GetProject i) = api_defaults\<lparr>verb := GET, url := ''/projects/'' @ i\<rparr>"
| "call_request (AddMember i d) =
     api_defaults\<lparr>verb := POST, url := ''/projects/'' @ i @ ''/members'', body := d\<rparr>"
| "call_request (GetIssues i p) =
     api_defaults\<lparr>verb := GET, url := ''/projects/'' @ i @ ''/issues'',
                   params := (if p = Undefined then JObj [] else p)\<rparr>"
| "call_request (CreateIssue i d) =
     api_defaults\<lparr>verb := POST, url := ''/projects/'' @ i @ ''/issues'', body := d\<rparr>"
| "call_request (GetIssue i) = api_defaults\<lparr>verb := GET, url := ''/issues/'' @ i\<rparr>"
| "call_request (UpdateIssue i d) = api_defaults\<lparr>verb := PATCH, url := ''/issues/'' @ i, body := d\<rparr>"
| "call_request (DeleteIssue i) = api_defaults\<lparr>verb := DELETE, url := ''/issues/'' @ i\<rparr>"
| "call_request (GetComments i) = api_defaults\<lparr>verb := GET, url := ''/issues/'' @ i @ ''/comments''\<rparr>"
| "call_request (CreateComment i d) =
     api_defaults\<lparr>verb := POST, url := ''/issues/'' @ i @ ''/comments'', body := d\<rparr>"

text \<open>What a wrapper returns from a fulfilled response.\<close>

fun returned :: "api_call \<Rightarrow> response \<Rightarrow> jsval" where
  "returned (DeleteIssue i) r = Undefined"
| "returned c r = data r"


section \<open>context/AuthContext: the provider's bootstrap\<close>

text \<open>The provider's React state: \<open>useState(null)\<close> and \<open>useState(true)\<close>.\<close>

record auth_state =
  user :: jsval
  loading :: bool

definition initial_auth :: auth_state where
  "initial_auth = \<lparr>user = Null, loading = True\<rparr>"

text \<open>
  \<open>initAuth\<close>: the result is \<open>Inl\<close> when an error leaves the function and \<open>Inr ()\<close>
  when it runs to its end. The \<open>catch\<close> has no binding and does not rethrow.
\<close>

definition initAuth :: "network \<Rightarrow> world \<Rightarrow> auth_state \<Rightarrow> (axios_error + unit) \<times> world \<times> auth_state" where
  "initAuth net w a =
     (let (w1, a1) =
        (case getItem w ''token'' of
           None \<Rightarrow> (w, a)
         | Some token \<Rightarrow>
             if token \<noteq> []
             then
               (case authAPI_getCurrentUser net w of
                  (Inr userData, w') \<Rightarrow> (w', a\<lparr>user := userData\<rparr>)
                | (Inl e, w') \<Rightarrow> (removeItem ''user'' (removeItem ''token'' w'), a))
             else (w, a))
      in (Inr (), w1, a1\<lparr>loading := False\<rparr>))"


section \<open>pages: the message a handler's catch block derives\<close>

text \<open>\<open>err.response?.data?.detail\<close>\<close>

definition response_data_detail :: "axios_error \<Rightarrow> jsval" where
  "response_data_detail err =
     (case response err of None \<Rightarrow> Undefined | Some r \<Rightarrow> prop_detail (data r))"

datatype handler =
    Login_handleSubmit
  | Signup_handleSubmit
  | ProjectsList_fetchProjects
  | ProjectsList_handleCreateProject
  | ProjectDetail_fetchProject
  | ProjectDetail_handleAddMember
  | IssuesList_fetchProject
  | IssuesList_fetchIssues
  | IssuesList_handleCreateIssue
  | IssueDetail_fetchIssue
  | IssueDetail_fetchComments
  | IssueDetail_handleAddComment
  | IssueDetail_handleUpdateIssue
  | IssueDetail_handleDeleteIssue

text \<open>
  The value each \<open>catch\<close> block passes to \<open>showToast\<close>, to \<open>setError\<close>, or to both
  (the same value then); \<open>None\<close> when the block calls neither and only writes to the
  console. What the page renders from the error state afterwards is not part of this
  function.
\<close>

fun catch_message :: "handler \<Rightarrow> axios_error \<Rightarrow> jsval option" where
  "catch_message Login_handleSubmit err =
     Some (js_or (response_data_detail err) (JStr ''Login failed. Please try again.''))"
| "catch_message Signup_handleSubmit err =
     Some (js_or (response_data_detail err) (JStr ''Signup failed. Please try again.''))"
| "catch_message ProjectsList_fetchProjects err = Some (JStr ''Failed to load projects'')"
| "catch_message ProjectsList_handleCreateProject err =
     Some (js_or (response_data_detail err) (JStr ''Failed to create project''))"
| "catch_message ProjectDetail_fetchProject err = Some (JStr ''Failed to load project'')"
| "catch_message ProjectDetail_handleAddMember err =
     Some (js_or (response_data_detail err) (JStr ''Failed to add member''))"
| "catch_message IssuesList_fetchProject err = Some (JStr ''Failed to load project'')"
| "catch_message IssuesList_fetchIssues err = Some (JStr ''Failed to load issues'')"
| "catch_message IssuesList_handleCreateIssue err =
     Some (js_or (response_data_detail err) (JStr ''Failed to create issue''))"
| "catch_message IssueDetail_fetchIssue err = Some (JStr ''Failed to load issue'')"
| "catch_message IssueDetail_fetchComments err = None"
| "catch_message IssueDetail_handleAddComment err = Some (JStr ''Failed to add comment'')"
| "catch_message IssueDetail_handleUpdateIssue err =
     Some (js_or (response_data_detail err) (JStr ''Failed to update issue''))"
| "catch_message IssueDetail_handleDeleteIssue err =
     Some (js_or (response_data_detail err) (JStr ''Failed to delete issue''))"

text \<open>The handlers whose \<open>catch\<close> block reads \<open>detail\<close>.\<close>

definition detail_readers :: "handler set" where
  "detail_readers =
     {Login_handleSubmit, Signup_handleSubmit, ProjectsList_handleCreateProject,
      ProjectDetail_handleAddMember, IssuesList_handleCreateIssue,
      IssueDetail_handleUpdateIssue, IssueDetail_handleDeleteIssue}"


section \<open>Observing a run\<close>

text \<open>The requests among a list of effects, in order.\<close>

fun sent_requests :: "effect list \<Rightarrow> config list" where
  "sent_requests [] = []"
| "sent_requests (Transmit c # es) = c # sent_requests es"
| "sent_requests (RemoveItem k # es) = sent_requests es"
| "sent_requests (AssignHref p # es) = sent_requests es"

text \<open>The requests handed to the transport between world \<open>w\<close> and a later world \<open>w'\<close>.\<close>

definition transmitted_since :: "world \<Rightarrow> world \<Rightarrow> config list" where
  "transmitted_since w w' = sent_requests (drop (length (trace w)) (trace w'))"

text \<open>A network that gives every request the same outcome.\<close>

definition replies :: "outcome \<Rightarrow> network" where
  "replies out c = out"

text \<open>
  Worlds of the scenarios: a stored token \<open>abc\<close> with a cached profile, on the projects
  page; the same on the login page; a stored token that is the empty string; and an
  empty store.
\<close>

definition signed_in_world :: world where
  "signed_in_world =
     \<lparr>storage = [''token'' \<mapsto> ''abc'', ''user'' \<mapsto> ''{}''], pathname = ''/projects'', trace = []\<rparr>"

definition login_page_world :: world where
  "login_page_world =
     \<lparr>storage = [''token'' \<mapsto> ''abc'', ''user'' \<mapsto> ''{}''], pathname = ''/login'', trace = []\<rparr>"

definition empty_token_world :: world where
  "empty_token_world = \<lparr>storage = [''token'' \<mapsto> []], pathname = ''/projects'', trace = []\<rparr>"

definition signed_out_world :: world where
  "signed_out_world = \<lparr>storage = Map.empty, pathname = ''/projects'', trace = []\<rparr>"



section \<open>The client: how an exchange settles\<close>

lemma transmitted_since_append:
  "trace w' = trace w @ es \<Longrightarrow> transmitted_since w w' = sent_requests es"
  by (simp add: transmitted_since_def)

lemma api_request_fulfilled:
  assumes "net (request_interceptor w c) = Responded s b" and "200 \<le> s" and "s < 300"
  shows "api_request net c w =
           (Inr \<lparr>status = s, data = b\<rparr>, transmit (request_interceptor w c) w)"
  using assms by (simp add: api_request_def settle_def response_fulfilled_def Let_def)

lemma api_request_401:
  assumes "net (request_interceptor w c) = Responded 401 b"
  shows "api_request net c w =
           (Inl \<lparr>config = request_interceptor w c, response = Some \<lparr>status = 401, data = b\<rparr>\<rparr>,
            (if pathname w \<noteq> ''/login''
             then assign_href ''/login''
             else id) (removeItem ''user'' (removeItem ''token'' (transmit (request_interceptor w c) w))))"
  using assms
  by (simp add: api_request_def settle_def response_rejected_def Let_def
      removeItem_def transmit_def assign_href_def)

lemma api_request_other:
  assumes "net (request_interceptor w c) = Responded s b"
    and "\<not> (200 \<le> s \<and> s < 300)" and "s \<noteq> 401"
  shows "api_request net c w =
           (Inl \<lparr>config = request_interceptor w c, response = Some \<lparr>status = s, data = b\<rparr>\<rparr>,
            transmit (request_interceptor w c) w)"
  using assms by (simp add: api_request_def settle_def response_rejected_def Let_def)

lemma api_request_no_response:
  assumes "net (request_interceptor w c) = NoResponse"
  shows "api_request net c w =
           (Inl \<lparr>config = request_interceptor w c, response = None\<rparr>,
            transmit (request_interceptor w c) w)"
  using assms by (simp add: api_request_def settle_def response_rejected_def Let_def)

lemma api_request_transmits_once:
  "transmitted_since w (snd (api_request net c w)) = [request_interceptor w c]"
  by (cases "net (request_interceptor w c)")
     (auto simp: api_request_def settle_def response_rejected_def Let_def
        response_fulfilled_def removeItem_def transmit_def assign_href_def
        transmitted_since_append)

lemmas wrapper_defs =
  authAPI_signup_def authAPI_login_def authAPI_getCurrentUser_def
  projectsAPI_getProjects_def projectsAPI_createProject_def projectsAPI_getProject_def
  projectsAPI_addMember_def issuesAPI_getIssues_def issuesAPI_createIssue_def
  issuesAPI_getIssue_def issuesAPI_updateIssue_def issuesAPI_deleteIssue_def
  commentsAPI_getComments_def commentsAPI_createComment_def
  api_get_def api_post_def api_patch_def api_delete_def

lemma invoke_via_request:
  "invoke call net w =
     (case api_request net (call_request call) w of
        (Inl e, w') \<Rightarrow> (Inl e, w')
      | (Inr r, w') \<Rightarrow> (Inr (returned call r), w'))"
  by (cases call; simp add: wrapper_defs Let_def api_defaults_def split: prod.splits sum.splits)

lemma fst_invoke:
  "fst (invoke call net w) =
     (case fst (api_request net (call_request call) w) of
        Inl e \<Rightarrow> Inl e | Inr r \<Rightarrow> Inr (returned call r))"
  by (simp add: invoke_via_request split: prod.splits sum.splits)

lemma snd_invoke:
  "snd (invoke call net w) = snd (api_request net (call_request call) w)"
  by (simp add: invoke_via_request split: prod.splits sum.splits)

lemma invoke_transmits_once:
  "transmitted_since w (snd (invoke call net w)) = [request_interceptor w (call_request call)]"
  by (simp only: snd_invoke api_request_transmits_once)

lemma fst_invoke_rejected:
  "fst (api_request net (call_request call) w) = Inl e \<Longrightarrow> fst (invoke call net w) = Inl e"
  by (simp add: fst_invoke del: invoke.simps)

lemma api_request_storage:
  "storage (snd (api_request net c w)) = storage w
   \<or> storage (snd (api_request net c w)) = (storage w)(''token'' := None, ''user'' := None)"
  by (cases "net (request_interceptor w c)")
     (auto simp: api_request_def settle_def response_rejected_def Let_def
        response_fulfilled_def removeItem_def transmit_def assign_href_def)

lemma call_request_headers:
  "headers (call_request call) = [''Content-Type'' \<mapsto> ''application/json'']"
  by (cases call) (simp_all add: api_defaults_def)


text \<open>
  C1: when the response to a request has status 401, whatever the request's path or
  method, the client removes the token and then the cached user from the session
  store, each exactly once, and after that assigns the login view to the location if
  and only if the current path is not already the login view. The trace lists the
  effects of the whole exchange in order.
\<close>

theorem unauthorized_clears_then_redirects:
  assumes "net (request_interceptor w c) = Responded 401 b"
  shows "trace (snd (api_request net c w)) =
           trace w @ [Transmit (request_interceptor w c), RemoveItem ''token'', RemoveItem ''user'']
             @ (if pathname w \<noteq> ''/login'' then [AssignHref ''/login''] else [])
         \<and> storage (snd (api_request net c w)) = (storage w)(''token'' := None, ''user'' := None)
         \<and> pathname (snd (api_request net c w)) = pathname w"
  using assms
  by (simp add: api_request_401 removeItem_def transmit_def assign_href_def)

theorem unauthorized_clears_then_redirects_witness:
  "replies (Responded 401 Null) (request_interceptor signed_in_world (call_request GetProjects))
     = Responded 401 Null
   \<and> map (\<lambda>e. case e of Transmit c \<Rightarrow> ''transmit'' | RemoveItem k \<Rightarrow> ''remove '' @ k
                    | AssignHref p \<Rightarrow> ''href '' @ p)
       (trace (snd (api_request (replies (Responded 401 Null)) (call_request GetProjects) signed_in_world)))
     = [''transmit'', ''remove token'', ''remove user'', ''href /login'']
   \<and> storage (snd (api_request (replies (Responded 401 Null)) (call_request GetProjects) signed_in_world)) ''token'' = None
   \<and> storage (snd (api_request (replies (Responded 401 Null)) (call_request GetProjects) signed_in_world)) ''user'' = None
   \<and> map (\<lambda>e. case e of Transmit c \<Rightarrow> ''transmit'' | RemoveItem k \<Rightarrow> ''remove '' @ k
                    | AssignHref p \<Rightarrow> ''href '' @ p)
       (trace (snd (api_request (replies (Responded 401 Null)) (call_request (Login Null)) login_page_world)))
     = [''transmit'', ''remove token'', ''remove user'']"
  using unauthorized_clears_then_redirects
          [of "replies (Responded 401 Null)" signed_in_world "call_request GetProjects" Null]
        unauthorized_clears_then_redirects
          [of "replies (Responded 401 Null)" login_page_world "call_request (Login Null)" Null]
  by (simp add: replies_def signed_in_world_def login_page_world_def)

text \<open>
  C2 (amended): for every request issued while a non-empty token is in the session
  store, exactly one request is transmitted and its authorization header is
  \<open>Bearer\<close>, a space and that token; this holds for any config the caller passes,
  also one that sets the header itself, and for every call of the wrappers.
\<close>

theorem nonempty_token_sent_as_bearer:
  assumes "storage w ''token'' = Some t" and "t \<noteq> []"
  shows "transmitted_since w (snd (api_request net c w)) =
           [c\<lparr>headers := (headers c)(''Authorization'' \<mapsto> ''Bearer '' @ t)\<rparr>]
         \<and> map (\<lambda>r. headers r ''Authorization'') (transmitted_since w (snd (invoke call net w))) =
           [Some (''Bearer '' @ t)]"
  using assms
  by (simp add: invoke_transmits_once api_request_transmits_once request_interceptor_def
      getItem_def del: invoke.simps)

theorem nonempty_token_sent_as_bearer_witness:
  "storage signed_in_world ''token'' = Some ''abc'' \<and> ''abc'' \<noteq> []
   \<and> map (\<lambda>r. headers r ''Authorization'')
       (transmitted_since signed_in_world
          (snd (invoke GetProjects (replies (Responded 200 (JArr []))) signed_in_world)))
     = [Some ''Bearer abc'']"
  using nonempty_token_sent_as_bearer
          [of signed_in_world "''abc''" "replies (Responded 200 (JArr []))" "call_request GetProjects" GetProjects]
  by (simp add: signed_in_world_def del: invoke.simps)

text \<open>
  C2 as stated fails: a token can be in the store and be the empty string, and then the
  request goes out without an authorization header.
\<close>

theorem empty_token_sends_no_header:
  "storage empty_token_world ''token'' = Some []
   \<and> map (\<lambda>r. headers r ''Authorization'')
       (transmitted_since empty_token_world
          (snd (invoke GetProjects (replies (Responded 200 (JArr []))) empty_token_world)))
     = [None]"
  by (simp add: invoke_transmits_once request_interceptor_def getItem_def
      empty_token_world_def api_defaults_def del: invoke.simps)

text \<open>
  C5: while the session store holds no token, the interceptor transmits the request as
  it was given, and the request of every wrapper call carries no authorization header.
\<close>

theorem absent_token_sends_no_header:
  assumes "storage w ''token'' = None"
  shows "transmitted_since w (snd (api_request net c w)) = [c]
         \<and> map (\<lambda>r. headers r ''Authorization'') (transmitted_since w (snd (invoke call net w))) =
           [None]"
  using assms
  by (simp add: invoke_transmits_once api_request_transmits_once request_interceptor_def
      getItem_def call_request_headers del: invoke.simps)

theorem absent_token_sends_no_header_witness:
  "storage signed_out_world ''token'' = None
   \<and> map (\<lambda>r. headers r ''Authorization'')
       (transmitted_since signed_out_world
          (snd (invoke GetProjects (replies (Responded 401 Null)) signed_out_world)))
     = [None]"
  using absent_token_sends_no_header
          [of signed_out_world "replies (Responded 401 Null)" "call_request GetProjects" GetProjects]
  by (simp add: signed_out_world_def del: invoke.simps)


text \<open>
  C3: a response whose status is neither 2xx nor 401 leaves the session store as it
  was, has no effect besides the transmission, and is rejected to the caller with an
  error that carries the status and the parsed body as received; the wrappers hand
  that error on.
\<close>

theorem other_failures_pass_untouched:
  assumes "\<not> (200 \<le> s \<and> s < 300)" and "s \<noteq> 401"
  shows "(net (request_interceptor w c) = Responded s b \<longrightarrow>
            fst (api_request net c w) =
              Inl \<lparr>config = request_interceptor w c, response = Some \<lparr>status = s, data = b\<rparr>\<rparr>
            \<and> storage (snd (api_request net c w)) = storage w
            \<and> trace (snd (api_request net c w)) = trace w @ [Transmit (request_interceptor w c)])
         \<and> (net (request_interceptor w (call_request call)) = Responded s b \<longrightarrow>
            fst (invoke call net w) =
              Inl \<lparr>config = request_interceptor w (call_request call),
                   response = Some \<lparr>status = s, data = b\<rparr>\<rparr>
            \<and> storage (snd (invoke call net w)) = storage w)"
  using assms
  by (auto simp: api_request_other fst_invoke_rejected snd_invoke transmit_def
      simp del: invoke.simps)

theorem other_failures_pass_untouched_witness:
  "\<not> (200 \<le> (403::nat) \<and> (403::nat) < 300) \<and> (403::nat) \<noteq> 401
   \<and> fst (invoke (AddMember ''5'' (JObj [(''email'', JStr ''a@b.c''), (''role'', JStr ''member'')]))
        (replies (Responded 403 (JObj [(''detail'', JStr ''Only maintainers can add members'')])))
        signed_in_world) =
       Inl \<lparr>config = request_interceptor signed_in_world
                (call_request (AddMember ''5'' (JObj [(''email'', JStr ''a@b.c''), (''role'', JStr ''member'')]))),
            response = Some \<lparr>status = 403,
                data = JObj [(''detail'', JStr ''Only maintainers can add members'')]\<rparr>\<rparr>
   \<and> storage (snd (invoke (AddMember ''5'' (JObj [(''email'', JStr ''a@b.c''), (''role'', JStr ''member'')]))
        (replies (Responded 403 (JObj [(''detail'', JStr ''Only maintainers can add members'')])))
        signed_in_world)) ''token'' = Some ''abc''"
  using other_failures_pass_untouched
          [of 403 "replies (Responded 403 (JObj [(''detail'', JStr ''Only maintainers can add members'')]))"
              signed_in_world
              "call_request (AddMember ''5'' (JObj [(''email'', JStr ''a@b.c''), (''role'', JStr ''member'')]))"
              "JObj [(''detail'', JStr ''Only maintainers can add members'')]"
              "AddMember ''5'' (JObj [(''email'', JStr ''a@b.c''), (''role'', JStr ''member'')])"]
  by (simp add: replies_def signed_in_world_def del: invoke.simps)

text \<open>
  C4: a request answered with 401 is still rejected: the client, and every wrapper
  called through it, ends with the error carrying the 401 response.
\<close>

theorem unauthorized_still_rejects:
  "(net (request_interceptor w c) = Responded 401 b \<longrightarrow>
      fst (api_request net c w) =
        Inl \<lparr>config = request_interceptor w c, response = Some \<lparr>status = 401, data = b\<rparr>\<rparr>)
   \<and> (net (request_interceptor w (call_request call)) = Responded 401 b \<longrightarrow>
      fst (invoke call net w) =
        Inl \<lparr>config = request_interceptor w (call_request call),
             response = Some \<lparr>status = 401, data = b\<rparr>\<rparr>)"
  by (auto simp: api_request_401 fst_invoke_rejected simp del: invoke.simps)

theorem unauthorized_still_rejects_witness:
  "replies (Responded 401 (JObj [(''detail'', JStr ''Could not validate credentials'')]))
     (request_interceptor signed_in_world (call_request (GetIssue ''12'')))
     = Responded 401 (JObj [(''detail'', JStr ''Could not validate credentials'')])
   \<and> fst (invoke (GetIssue ''12'')
        (replies (Responded 401 (JObj [(''detail'', JStr ''Could not validate credentials'')])))
        signed_in_world) =
       Inl \<lparr>config = request_interceptor signed_in_world (call_request (GetIssue ''12'')),
            response = Some \<lparr>status = 401,
                data = JObj [(''detail'', JStr ''Could not validate credentials'')]\<rparr>\<rparr>"
  using unauthorized_still_rejects
          [of "replies (Responded 401 (JObj [(''detail'', JStr ''Could not validate credentials'')]))"
              signed_in_world "call_request (GetIssue ''12'')"
              "JObj [(''detail'', JStr ''Could not validate credentials'')]" "GetIssue ''12''"]
  by (simp add: replies_def del: invoke.simps)

text \<open>
  C9: an error without a response passes the response interceptor with the world
  unchanged and is rejected as it is; a request that gets no response leaves the session
  store untouched and has no effect besides the transmission.
\<close>

theorem transport_failure_leaves_store:
  "(response e = None \<longrightarrow> response_rejected e w = (Inl e, w))
   \<and> (net (request_interceptor w c) = NoResponse \<longrightarrow>
      fst (api_request net c w) = Inl \<lparr>config = request_interceptor w c, response = None\<rparr>
      \<and> storage (snd (api_request net c w)) = storage w
      \<and> trace (snd (api_request net c w)) = trace w @ [Transmit (request_interceptor w c)])"
  by (auto simp: api_request_no_response response_rejected_def transmit_def)

theorem transport_failure_leaves_store_witness:
  "response \<lparr>config = call_request GetProjects, response = None\<rparr> = None
   \<and> response_rejected \<lparr>config = call_request GetProjects, response = None\<rparr> signed_in_world
       = (Inl \<lparr>config = call_request GetProjects, response = None\<rparr>, signed_in_world)
   \<and> replies NoResponse (request_interceptor signed_in_world (call_request GetProjects)) = NoResponse
   \<and> storage (snd (api_request (replies NoResponse) (call_request GetProjects) signed_in_world)) ''token''
       = Some ''abc''
   \<and> storage (snd (api_request (replies NoResponse) (call_request GetProjects) signed_in_world)) ''user''
       = Some ''{}''"
  using transport_failure_leaves_store
          [of "\<lparr>config = call_request GetProjects, response = None\<rparr>" signed_in_world
              "replies NoResponse" "call_request GetProjects"]
  by (simp add: replies_def signed_in_world_def)

text \<open>
  C6 (amended): every wrapper makes exactly one request through the client, leaves the
  world as the client left it, and throws the client's failure as it is; on a
  fulfilled exchange every wrapper except \<open>deleteIssue\<close> returns the parsed body
  unchanged, and \<open>deleteIssue\<close> returns \<open>undefined\<close> whatever the body was.
\<close>

theorem wrappers_pass_through:
  "fst (invoke call net w) =
     (case fst (api_request net (call_request call) w) of
        Inl e \<Rightarrow> Inl e
      | Inr r \<Rightarrow> Inr (case call of DeleteIssue i \<Rightarrow> Undefined | _ \<Rightarrow> data r))
   \<and> snd (invoke call net w) = snd (api_request net (call_request call) w)
   \<and> transmitted_since w (snd (invoke call net w)) = [request_interceptor w (call_request call)]"
proof -
  have "returned call r = (case call of DeleteIssue i \<Rightarrow> Undefined | _ \<Rightarrow> data r)" for r
    by (cases call) simp_all
  then show ?thesis
    by (simp add: fst_invoke snd_invoke api_request_transmits_once del: invoke.simps
        split: sum.splits)
qed

text \<open>
  C6 as stated fails at \<open>deleteIssue\<close>: the exchange is fulfilled with a body and the
  wrapper returns \<open>undefined\<close>.
\<close>

theorem deleteIssue_discards_body:
  "fst (invoke (DeleteIssue ''7'') (replies (Responded 200 (JObj [(''message'', JStr ''Issue deleted'')])))
         signed_in_world) = Inr Undefined
   \<and> fst (invoke (DeleteIssue ''7'') (replies (Responded 200 (JObj [(''message'', JStr ''Issue deleted'')])))
         signed_in_world) \<noteq> Inr (JObj [(''message'', JStr ''Issue deleted'')])"
  by (simp add: fst_invoke api_request_fulfilled replies_def del: invoke.simps)

text \<open>
  C7 (amended): the statement is about the message a \<open>catch\<close> block derives and hands
  to \<open>showToast\<close> or \<open>setError\<close>. Each handler has one fixed message of its own. The
  seven handlers in \<open>detail_readers\<close> hand on the \<open>detail\<close> of the error body when
  that value is truthy and their fixed message otherwise; every other handler hands on
  its fixed message whatever the body holds, except \<open>fetchComments\<close> of the issue
  page, which hands on nothing.
\<close>

theorem handler_message_from_detail:
  "if h = IssueDetail_fetchComments
   then \<forall>err. catch_message h err = None
   else \<exists>generic. \<forall>err.
          catch_message h err =
            Some (if h \<in> detail_readers \<and> truthy (response_data_detail err)
                  then response_data_detail err else JStr generic)"
  by (cases h) (auto simp: detail_readers_def js_or_def)

theorem handler_message_from_detail_witness:
  "\<exists>generic. \<forall>err.
      catch_message ProjectDetail_handleAddMember err =
        Some (if truthy (response_data_detail err) then response_data_detail err else JStr generic)"
  using handler_message_from_detail [of ProjectDetail_handleAddMember]
  by (simp add: detail_readers_def)

text \<open>
  C7 as stated fails: the project list's loader and the comment form derive their fixed
  message although the error body has a \<open>detail\<close>, and the login form falls back to
  its fixed message when \<open>detail\<close> is present and empty.
\<close>

theorem detail_not_always_used:
  "catch_message ProjectsList_fetchProjects
     \<lparr>config = call_request GetProjects,
      response = Some \<lparr>status = 403, data = JObj [(''detail'', JStr ''Not a member'')]\<rparr>\<rparr>
     = Some (JStr ''Failed to load projects'')
   \<and> catch_message IssueDetail_handleAddComment
     \<lparr>config = call_request (CreateComment ''3'' (JObj [(''body'', JStr ''hi'')])),
      response = Some \<lparr>status = 403, data = JObj [(''detail'', JStr ''Not a member'')]\<rparr>\<rparr>
     = Some (JStr ''Failed to add comment'')
   \<and> catch_message Login_handleSubmit
     \<lparr>config = call_request (Login Null),
      response = Some \<lparr>status = 400, data = JObj [(''detail'', JStr [])]\<rparr>\<rparr>
     = Some (JStr ''Login failed. Please try again.'')"
  by (simp add: js_or_def response_data_detail_def)

text \<open>
  C10: on bootstrap with a token in the store for which the profile is fetched, if that
  fetch fails in any way (any rejected exchange, with or without a response), the
  provider ends with the token and the cached user removed from the store, the user
  state still \<open>null\<close>, loading switched off, and no error leaving \<open>initAuth\<close>.
\<close>

theorem bootstrap_failure_clears_session:
  assumes "storage w ''token'' = Some t" and "t \<noteq> []"
    and "isl (fst (authAPI_getCurrentUser net w))"
  shows "fst (initAuth net w initial_auth) = Inr ()
         \<and> storage (fst (snd (initAuth net w initial_auth))) =
             (storage w)(''token'' := None, ''user'' := None)
         \<and> snd (snd (initAuth net w initial_auth)) = \<lparr>user = Null, loading = False\<rparr>"
proof -
  obtain r w' where rw: "authAPI_getCurrentUser net w = (r, w')"
    by (cases "authAPI_getCurrentUser net w")
  with assms(3) obtain e where e: "r = Inl e"
    by (cases r) auto
  have "w' = snd (invoke GetCurrentUser net w)"
    using rw by simp
  then have "w' = snd (api_request net (call_request GetCurrentUser) w)"
    by (simp only: snd_invoke)
  then have st: "storage w' = storage w
      \<or> storage w' = (storage w)(''token'' := None, ''user'' := None)"
    using api_request_storage by simp
  have "initAuth net w initial_auth =
          (Inr (), removeItem ''user'' (removeItem ''token'' w'), initial_auth\<lparr>loading := False\<rparr>)"
    using assms(1,2) rw e by (simp add: initAuth_def getItem_def)
  then show ?thesis
    using st by (auto simp: removeItem_def initial_auth_def)
qed

theorem bootstrap_failure_clears_session_witness:
  "storage signed_in_world ''token'' = Some ''abc'' \<and> ''abc'' \<noteq> []
   \<and> isl (fst (authAPI_getCurrentUser (replies NoResponse) signed_in_world))
   \<and> fst (initAuth (replies NoResponse) signed_in_world initial_auth) = Inr ()
   \<and> storage (fst (snd (initAuth (replies NoResponse) signed_in_world initial_auth))) ''token'' = None
   \<and> storage (fst (snd (initAuth (replies NoResponse) signed_in_world initial_auth))) ''user'' = None
   \<and> snd (snd (initAuth (replies NoResponse) signed_in_world initial_auth))
       = \<lparr>user = Null, loading = False\<rparr>"
proof -
  have tok: "storage signed_in_world ''token'' = Some ''abc''"
    by (simp add: signed_in_world_def)
  have "fst (invoke GetCurrentUser (replies NoResponse) signed_in_world) =
          Inl \<lparr>config = request_interceptor signed_in_world (call_request GetCurrentUser),
               response = None\<rparr>"
    by (rule fst_invoke_rejected) (simp add: api_request_no_response replies_def)
  then have failed: "isl (fst (authAPI_getCurrentUser (replies NoResponse) signed_in_world))"
    by simp
  show ?thesis
    using bootstrap_failure_clears_session [OF tok _ failed] tok failed
    by (simp add: signed_in_world_def)
qed

text \<open>
  C8: when the stored token is the empty string, the request interceptor attaches no
  authorization header: it returns the config it was given, whatever that config is,
  so the test is on the truthiness of the stored value and not on the key being there.
\<close>

theorem empty_token_attaches_nothing:
  "request_interceptor (w\<lparr>storage := (storage w)(''token'' \<mapsto> [])\<rparr>) c = c"
  by (simp add: request_interceptor_def getItem_def)

end
